theory Spec2Isabelle
  imports Complex_Main
begin

section \<open>The chat interface of app.py\<close>

text \<open>
  The program is one Streamlit script, \<^verbatim>\<open>app.py\<close>. The host framework runs
  \<^verbatim>\<open>main()\<close> once per user interaction (one pass) and keeps
  \<^verbatim>\<open>st.session_state\<close> between passes. A pass reads the process environment, the
  values of three widgets (model selector, text input, clear button) and may call the
  completion API once. It writes the session state, draws elements on the page and ends
  normally or with an exception.

  Every function of the script is a function from a world to an outcome and a world. The
  world holds the session state, the elements drawn so far in the pass and the requests
  sent to the API so far. The world returned with an exception is the one at the raise:
  Python keeps the writes made before it.
\<close>

subsection \<open>Data\<close>

text \<open>The exceptions the script can meet. \<open>APIError\<close> stands for any subclass of
  \<^verbatim>\<open>Exception\<close> that \<^verbatim>\<open>client.messages.create\<close> raises (an API error, a
  timeout the client reports, a response it cannot parse), with its \<^verbatim>\<open>str()\<close>; building
  the client only stores the key. \<open>RerunException\<close> is what
  \<^verbatim>\<open>st.experimental_rerun()\<close> raises to stop the script; the framework catches it and
  starts the next pass. A call that never returns is outside this model: the script sets
  no timeout of its own.\<close>

datatype exn = ValueError | IndexError | AttributeError | APIError string | RerunException

text \<open>A message is the dict \<^verbatim>\<open>{"role": ..., "content": ...}\<close>.\<close>

record message =
  role :: string
  content :: string

text \<open>\<^verbatim>\<open>st.session_state.model_config\<close>. The temperature is the literal 0.7; it is
  only stored and passed on.\<close>

record model_config =
  model :: string
  temperature :: rat
  max_tokens :: int

text \<open>\<^verbatim>\<open>st.session_state\<close>: each of the two keys is present or not.\<close>

record session_state =
  messages :: "message list option"
  model_config :: "model_config option"

text \<open>The keyword arguments of \<^verbatim>\<open>client.messages.create\<close>.\<close>

record request =
  req_model :: string
  req_max_tokens :: int
  req_temperature :: rat
  req_messages :: "message list"

text \<open>A content segment of a response has a \<^verbatim>\<open>text\<close> attribute or not (a tool-use
  block has none). The call returns a response or raises.\<close>

datatype block = TextBlock string | OtherBlock

datatype api_outcome = Responds "block list" | Raises string

text \<open>What a pass draws, in the order of the calls. The static labels of the script are
  not kept. \<open>ChatMarkdown r c\<close> is \<^verbatim>\<open>st.markdown(c)\<close> inside
  \<^verbatim>\<open>st.chat_message(r)\<close>; \<open>Selectbox opts i\<close> is the model selector with its
  options and preselected index; \<open>ErrorBox t\<close> is \<^verbatim>\<open>st.error(t)\<close> and
  \<open>ErrorBoxExn e\<close> is \<^verbatim>\<open>st.error(f"Error generating response: {e}")\<close>, both
  drawn in the container that is open at the call.\<close>

datatype ui =
    SidebarTitle
  | Selectbox "string list" nat
  | PageTitle
  | ChatMarkdown string string
  | TextInput
  | ErrorBox string
  | ErrorBoxExn exn
  | SidebarRule
  | ClearButton
  | AboutPanel

record world =
  session :: session_state
  screen :: "ui list"
  requests :: "request list"

type_synonym environ = "string \<Rightarrow> string option"

text \<open>The inputs of one pass: the environment, the entry the user picked in the selector
  (\<open>None\<close>: the preselected one stays), the text of the input field, whether the clear
  button was clicked, and the behaviour of the completion API.\<close>

record pass_input =
  in_env :: environ
  in_choice :: "nat option"
  in_prompt :: string
  in_clear :: bool
  in_api :: "request \<Rightarrow> api_outcome"

subsection \<open>Library functions\<close>

definition getenv :: "environ \<Rightarrow> string \<Rightarrow> string \<Rightarrow> string" where
  "getenv e k d = (case e k of None \<Rightarrow> d | Some v \<Rightarrow> v)"

text \<open>\<^verbatim>\<open>s.split(',')\<close>: the pieces between the commas; never an empty list.\<close>

fun split_comma :: "string \<Rightarrow> string list" where
  "split_comma [] = [[]]"
| "split_comma (c # cs) =
     (if c = CHR '','' then [] # split_comma cs
      else (case split_comma cs of
              [] \<Rightarrow> [[c]]
            | x # xs \<Rightarrow> (c # x) # xs))"

text \<open>\<^verbatim>\<open>xs.index(v)\<close>: the first position of \<open>v\<close>, or ValueError.\<close>

fun index_of :: "'a list \<Rightarrow> 'a \<Rightarrow> nat option" where
  "index_of [] v = None"
| "index_of (x # xs) v =
     (if x = v then Some 0 else map_option Suc (index_of xs v))"

text \<open>\<^verbatim>\<open>int(s)\<close> on a string, base 10. A string is the list of the code points of the
  Python \<^verbatim>\<open>str\<close>; a \<open>char\<close> holds a code point below 256, so a string with a code
  point from 256 on is not a value of this model.

  \<^verbatim>\<open>int\<close> skips white space at both ends, reads an optional sign and then digits, where
  one underscore may stand between two digits; after the digits only white space may
  follow. Anything else is ValueError. The white space it skips is the C one (tab, line
  feed, vertical tab, form feed, carriage return, space) and, of the code points from 128
  to 255, the Unicode ones (U+0085 and U+00A0); the separators U+001C to U+001F, which
  \<^verbatim>\<open>str.isspace\<close> accepts, are not skipped. Below 256 the only decimal digits are
  \<^verbatim>\<open>0\<close> to \<^verbatim>\<open>9\<close>. A literal of more than 4300 digits is a ValueError as well (the
  limit on the conversion of decimal strings, Python 3.11).\<close>

definition is_int_space :: "char \<Rightarrow> bool" where
  "is_int_space c = (c \<in> set [CHR 0x09, CHR 0x0A, CHR 0x0B, CHR 0x0C, CHR 0x0D, CHR 0x20,
                               CHR 0x85, CHR 0xA0])"

definition is_digit :: "char \<Rightarrow> bool" where
  "is_digit c = (c \<in> set ''0123456789'')"

definition digit_val :: "char \<Rightarrow> nat" where
  "digit_val c = of_char c - 48"

definition skip_int_space :: "string \<Rightarrow> string" where
  "skip_int_space s = rev (dropWhile is_int_space (rev (dropWhile is_int_space s)))"

fun parse_digits :: "nat \<Rightarrow> bool \<Rightarrow> string \<Rightarrow> nat option" where
  "parse_digits acc prev [] = (if prev then Some acc else None)"
| "parse_digits acc prev (c # cs) =
     (if is_digit c then parse_digits (10 * acc + digit_val c) True cs
      else if c = CHR ''_'' \<and> prev then parse_digits acc False cs
      else None)"

definition max_str_digits :: nat where
  "max_str_digits = 4300"

definition py_int :: "string \<Rightarrow> exn + int" where
  "py_int s =
     (let t = skip_int_space s;
          neg = (t \<noteq> [] \<and> hd t = CHR ''-'');
          body = (if t \<noteq> [] \<and> (hd t = CHR ''-'' \<or> hd t = CHR ''+'') then tl t else t)
      in case parse_digits 0 False body of
           None \<Rightarrow> Inl ValueError
         | Some n \<Rightarrow>
             if max_str_digits < length (filter is_digit body) then Inl ValueError
             else Inr (if neg then - int n else int n))"

subsection \<open>Writing the world\<close>

definition emit :: "ui \<Rightarrow> world \<Rightarrow> world" where
  "emit u w = w\<lparr>screen := screen w @ [u]\<rparr>"

definition set_messages :: "message list \<Rightarrow> world \<Rightarrow> world" where
  "set_messages ms w = w\<lparr>session := (session w)\<lparr>messages := Some ms\<rparr>\<rparr>"

definition set_model_config :: "model_config \<Rightarrow> world \<Rightarrow> world" where
  "set_model_config c w = w\<lparr>session := (session w)\<lparr>model_config := Some c\<rparr>\<rparr>"

definition send :: "request \<Rightarrow> world \<Rightarrow> world" where
  "send r w = w\<lparr>requests := requests w @ [r]\<rparr>"

subsection \<open>initialize\_session\_state (lines 9 to 18)\<close>

text \<open>The dict built at lines 14 to 18. \<^verbatim>\<open>os.getenv('DEFAULT_MAX_TOKENS', 1000)\<close> is
  the integer 1000 when the variable is unset and the variable's string otherwise;
  \<^verbatim>\<open>int\<close> of a string may raise.\<close>

definition default_max_tokens :: "environ \<Rightarrow> exn + int" where
  "default_max_tokens e =
     (case e ''DEFAULT_MAX_TOKENS'' of None \<Rightarrow> Inr 1000 | Some s \<Rightarrow> py_int s)"

definition default_model_config :: "environ \<Rightarrow> exn + model_config" where
  "default_model_config e =
     (case default_max_tokens e of
        Inl x \<Rightarrow> Inl x
      | Inr n \<Rightarrow> Inr \<lparr>model = getenv e ''DEFAULT_MODEL'' ''claude-3-opus-20240229'',
                      temperature = 7 / 10,
                      max_tokens = n\<rparr>)"

definition initialize_session_state :: "environ \<Rightarrow> world \<Rightarrow> (exn + unit) \<times> world" where
  "initialize_session_state e w =
     (let w1 = (if messages (session w) = None then set_messages [] w else w)
      in case model_config (session w1) of
           Some c \<Rightarrow> (Inr (), w1)
         | None \<Rightarrow>
             (case default_model_config e of
                Inl x \<Rightarrow> (Inl x, w1)
              | Inr c \<Rightarrow> (Inr (), set_model_config c w1)))"

subsection \<open>sidebar\_config (lines 20 to 40)\<close>

definition model_options :: "environ \<Rightarrow> string list" where
  "model_options e =
     (let opts = split_comma (getenv e ''AVAILABLE_MODELS'' [])
      in if opts = [] \<or> opts = [[]]
         then [''claude-3-opus-20240229'', ''claude-3-sonnet-20240229'',
               ''claude-3-haiku-20240307'']
         else opts)"

text \<open>\<^verbatim>\<open>st.sidebar.selectbox(label, options, index=i)\<close> gives the entry the user
  picked, and the entry at the preselected index when the user picked none. The widget
  only offers the entries of \<open>options\<close>; a pick outside is taken as no pick.\<close>

definition selectbox :: "string list \<Rightarrow> nat \<Rightarrow> nat option \<Rightarrow> string" where
  "selectbox opts i pick =
     (case pick of
        None \<Rightarrow> opts ! i
      | Some j \<Rightarrow> if j < length opts then opts ! j else opts ! i)"

definition sidebar_config :: "environ \<Rightarrow> nat option \<Rightarrow> world \<Rightarrow> (exn + unit) \<times> world" where
  "sidebar_config e pick w =
     (let w1 = emit SidebarTitle w;
          opts = model_options e
      in case model_config (session w1) of
           None \<Rightarrow> (Inl AttributeError, w1)
         | Some c \<Rightarrow>
             (case index_of opts (model c) of
                None \<Rightarrow> (Inl ValueError, w1)
              | Some i \<Rightarrow>
                  (Inr (), set_model_config (c\<lparr>model := selectbox opts i pick\<rparr>)
                             (emit (Selectbox opts i) w1))))"

subsection \<open>display\_chat\_history (lines 42 to 46)\<close>

text \<open>One \<^verbatim>\<open>st.markdown\<close> in a chat container per message, in order.\<close>

definition rendered :: "message list \<Rightarrow> ui list" where
  "rendered ms = map (\<lambda>m. ChatMarkdown (role m) (content m)) ms"

definition display_chat_history :: "world \<Rightarrow> (exn + unit) \<times> world" where
  "display_chat_history w =
     (case messages (session w) of
        None \<Rightarrow> (Inl AttributeError, w)
      | Some ms \<Rightarrow> (Inr (), w\<lparr>screen := screen w @ rendered ms\<rparr>))"

subsection \<open>generate\_llm\_response (lines 48 to 79)\<close>

definition missing_key_text :: string where
  "missing_key_text = ''API key is required to use the model.''"

definition missing_key_error :: string where
  "missing_key_error = ''API key not found. Please set ANTHROPIC_API_KEY in your .env file.''"

definition failure_text :: string where
  "failure_text = ''An error occurred while generating the response.''"

text \<open>Lines 63 to 66: the role and the content of every message, in order.\<close>

definition api_messages :: "message list \<Rightarrow> message list" where
  "api_messages ms = map (\<lambda>m. \<lparr>role = role m, content = content m\<rparr>) ms"

text \<open>\<^verbatim>\<open>response.content[0].text\<close>.\<close>

definition first_text :: "block list \<Rightarrow> exn + string" where
  "first_text bs =
     (case bs of
        [] \<Rightarrow> Inl IndexError
      | b # rest \<Rightarrow> (case b of TextBlock t \<Rightarrow> Inr t | OtherBlock \<Rightarrow> Inl AttributeError))"

text \<open>Lines 69 to 74: the request built from the session.\<close>

definition completion_request :: "model_config \<Rightarrow> message list \<Rightarrow> request" where
  "completion_request c ms =
     \<lparr>req_model = model c, req_max_tokens = max_tokens c,
      req_temperature = temperature c, req_messages = api_messages ms\<rparr>"

text \<open>The body of the \<^verbatim>\<open>try\<close>, lines 59 to 76. The request is logged when it is
  sent, before the outcome of the call is known.\<close>

definition try_body :: "(request \<Rightarrow> api_outcome) \<Rightarrow> world \<Rightarrow> (exn + string) \<times> world" where
  "try_body api w =
     (case messages (session w) of
        None \<Rightarrow> (Inl AttributeError, w)
      | Some ms \<Rightarrow>
          (case model_config (session w) of
             None \<Rightarrow> (Inl AttributeError, w)
           | Some c \<Rightarrow>
               (let r = completion_request c ms;
                    w1 = send r w
                in case api r of
                     Raises d \<Rightarrow> (Inl (APIError d), w1)
                   | Responds bs \<Rightarrow> (first_text bs, w1))))"

text \<open>\<^verbatim>\<open>except Exception\<close> catches everything but the script-control exception.\<close>

definition is_Exception :: "exn \<Rightarrow> bool" where
  "is_Exception x = (x \<noteq> RerunException)"

definition generate_llm_response ::
    "environ \<Rightarrow> (request \<Rightarrow> api_outcome) \<Rightarrow> string \<Rightarrow> world \<Rightarrow> (exn + string) \<times> world" where
  "generate_llm_response e api prompt w =
     (if getenv e ''ANTHROPIC_API_KEY'' [] = []
      then (Inr missing_key_text, emit (ErrorBox missing_key_error) w)
      else (case try_body api w of
              (Inr t, w1) \<Rightarrow> (Inr t, w1)
            | (Inl x, w1) \<Rightarrow>
                if is_Exception x
                then (Inr failure_text, emit (ErrorBoxExn x) w1)
                else (Inl x, w1)))"

subsection \<open>main (lines 81 to 133)\<close>

text \<open>\<^verbatim>\<open>st.session_state.messages.append(m)\<close>.\<close>

definition append_message :: "message \<Rightarrow> world \<Rightarrow> (exn + unit) \<times> world" where
  "append_message m w =
     (case messages (session w) of
        None \<Rightarrow> (Inl AttributeError, w)
      | Some ms \<Rightarrow> (Inr (), set_messages (ms @ [m]) w))"

definition user_message :: "string \<Rightarrow> message" where
  "user_message p = \<lparr>role = ''user'', content = p\<rparr>"

definition assistant_message :: "string \<Rightarrow> message" where
  "assistant_message r = \<lparr>role = ''assistant'', content = r\<rparr>"

text \<open>Lines 98 to 118, the body of \<^verbatim>\<open>if prompt:\<close>.\<close>

definition submit :: "pass_input \<Rightarrow> world \<Rightarrow> (exn + unit) \<times> world" where
  "submit inp w =
     (case append_message (user_message (in_prompt inp)) w of
        (Inl x, w1) \<Rightarrow> (Inl x, w1)
      | (Inr u, w1) \<Rightarrow>
          (let w2 = emit (ChatMarkdown ''user'' (in_prompt inp)) w1
           in case generate_llm_response (in_env inp) (in_api inp) (in_prompt inp) w2 of
                (Inl x, w3) \<Rightarrow> (Inl x, w3)
              | (Inr response, w3) \<Rightarrow>
                  append_message (assistant_message response)
                    (emit (ChatMarkdown ''assistant'' response) w3)))"

text \<open>Lines 120 to 133: the rule, the clear button and the panel under it.\<close>

definition clear_chat :: "bool \<Rightarrow> world \<Rightarrow> (exn + unit) \<times> world" where
  "clear_chat clicked w =
     (let w1 = emit ClearButton (emit SidebarRule w)
      in if clicked then (Inl RerunException, set_messages [] w1)
         else (Inr (), emit AboutPanel w1))"

definition main :: "pass_input \<Rightarrow> world \<Rightarrow> (exn + unit) \<times> world" where
  "main inp w =
     (case initialize_session_state (in_env inp) w of
        (Inl x, w1) \<Rightarrow> (Inl x, w1)
      | (Inr u1, w1) \<Rightarrow>
     (case sidebar_config (in_env inp) (in_choice inp) w1 of
        (Inl x, w2) \<Rightarrow> (Inl x, w2)
      | (Inr u2, w2) \<Rightarrow>
     (case display_chat_history (emit PageTitle w2) of
        (Inl x, w3) \<Rightarrow> (Inl x, w3)
      | (Inr u3, w3) \<Rightarrow>
     (case (if in_prompt inp \<noteq> [] then submit inp (emit TextInput w3)
            else (Inr (), emit TextInput w3)) of
        (Inl x, w4) \<Rightarrow> (Inl x, w4)
      | (Inr u4, w4) \<Rightarrow> clear_chat (in_clear inp) w4))))"

text \<open>The host framework: each pass starts on an empty page with the session state the
  pass before left, also when that pass ended with an exception.\<close>

definition fresh :: "session_state \<Rightarrow> world" where
  "fresh s = \<lparr>session = s, screen = [], requests = []\<rparr>"

definition run_pass :: "pass_input \<Rightarrow> session_state \<Rightarrow> session_state" where
  "run_pass inp s = session (snd (main inp (fresh s)))"


definition new_session :: session_state where
  "new_session = \<lparr>messages = None, model_config = None\<rparr>"

text \<open>The conversation of a session; a session without the key holds none yet.\<close>

definition conversation :: "session_state \<Rightarrow> message list" where
  "conversation s = (case messages s of None \<Rightarrow> [] | Some ms \<Rightarrow> ms)"

text \<open>The selected model of the session (the default one, for a session that has no
  configuration yet) is one of the options the selector offers.\<close>

definition selector_ready :: "environ \<Rightarrow> session_state \<Rightarrow> bool" where
  "selector_ready e s =
     (case model_config s of
        Some c \<Rightarrow> model c \<in> set (model_options e)
      | None \<Rightarrow>
          (case default_model_config e of
             Inl x \<Rightarrow> False
           | Inr c \<Rightarrow> model c \<in> set (model_options e)))"

subsection \<open>Concrete inputs\<close>

definition keyed_env :: environ where
  "keyed_env = [''ANTHROPIC_API_KEY'' \<mapsto> ''sk-test'']"

definition stale_env :: environ where
  "stale_env = [''AVAILABLE_MODELS'' \<mapsto> ''m1,m2'']"

definition bad_tokens_env :: environ where
  "bad_tokens_env = [''DEFAULT_MAX_TOKENS'' \<mapsto> ''abc'']"

definition empty_tokens_env :: environ where
  "empty_tokens_env = [''DEFAULT_MAX_TOKENS'' \<mapsto> []]"

definition stale_keyed_env :: environ where
  "stale_keyed_env = [''ANTHROPIC_API_KEY'' \<mapsto> ''sk-test'', ''AVAILABLE_MODELS'' \<mapsto> ''m1,m2'']"

definition custom_env :: environ where
  "custom_env = [''DEFAULT_MODEL'' \<mapsto> ''claude-3-haiku-20240307'',
                 ''DEFAULT_MAX_TOKENS'' \<mapsto> '' 2_048 '']"

definition say_and_clear ::
    "environ \<Rightarrow> (request \<Rightarrow> api_outcome) \<Rightarrow> string \<Rightarrow> pass_input" where
  "say_and_clear e a p =
     \<lparr>in_env = e, in_choice = None, in_prompt = p, in_clear = True, in_api = a\<rparr>"

definition opus_config :: model_config where
  "opus_config =
     \<lparr>model = ''claude-3-opus-20240229'', temperature = 7 / 10, max_tokens = 1000\<rparr>"

definition stale_session :: session_state where
  "stale_session =
     \<lparr>messages = Some [], model_config = Some (opus_config\<lparr>model := ''m3''\<rparr>)\<rparr>"

definition chat_session :: session_state where
  "chat_session =
     \<lparr>messages = Some [user_message ''hello'', assistant_message ''hi there''],
      model_config = Some opus_config\<rparr>"

definition canned_api :: "string \<Rightarrow> request \<Rightarrow> api_outcome" where
  "canned_api t r = Responds [TextBlock t]"

definition failing_api :: "string \<Rightarrow> request \<Rightarrow> api_outcome" where
  "failing_api d r = Raises d"

definition say :: "environ \<Rightarrow> (request \<Rightarrow> api_outcome) \<Rightarrow> string \<Rightarrow> pass_input" where
  "say e a p =
     \<lparr>in_env = e, in_choice = None, in_prompt = p, in_clear = False, in_api = a\<rparr>"

definition click_clear :: "environ \<Rightarrow> pass_input" where
  "click_clear e =
     \<lparr>in_env = e, in_choice = None, in_prompt = [], in_clear = True,
      in_api = failing_api []\<rparr>"

section \<open>Properties of the steps\<close>

lemma message_eta: "\<lparr>role = role m, content = content m\<rparr> = (m::message)"
  by (cases m) simp

lemma api_messages_id: "api_messages ms = ms"
  by (simp add: api_messages_def message_eta)

lemma completion_request_eq:
  "completion_request c ms =
     \<lparr>req_model = model c, req_max_tokens = max_tokens c,
      req_temperature = temperature c, req_messages = ms\<rparr>"
  by (simp add: completion_request_def api_messages_id)

lemma index_of_None: "index_of xs v = None \<longleftrightarrow> v \<notin> set xs"
  by (induction xs) auto


lemma index_of_mem: "v \<in> set xs \<Longrightarrow> \<exists>i. index_of xs v = Some i"
  using index_of_None [of xs v] by (cases "index_of xs v") auto


lemma try_body_not_rerun: "fst (try_body api w) \<noteq> Inl RerunException"
  by (auto simp: try_body_def first_text_def Let_def split: option.splits api_outcome.splits list.splits block.splits)

lemma try_body_session: "session (snd (try_body api w)) = session w"
  by (auto simp: try_body_def send_def Let_def split: option.splits api_outcome.splits)

lemma try_body_screen: "screen (snd (try_body api w)) = screen w"
  by (auto simp: try_body_def send_def Let_def split: option.splits api_outcome.splits)

lemma gen_returns: "\<exists>t. fst (generate_llm_response e api p w) = Inr t"
  using try_body_not_rerun [of api w]
  by (cases "try_body api w") (auto simp: generate_llm_response_def is_Exception_def split: sum.splits)

lemma gen_session: "session (snd (generate_llm_response e api p w)) = session w"
  using try_body_session [of api w]
  by (cases "try_body api w") (auto simp: generate_llm_response_def emit_def split: sum.splits)

lemma gen_screen: "\<exists>us. screen (snd (generate_llm_response e api p w)) = screen w @ us \<and> AboutPanel \<notin> set us"
  using try_body_screen [of api w]
  by (cases "try_body api w") (auto simp: generate_llm_response_def emit_def split: sum.splits)

lemma try_body_ready:
  assumes "messages (session w) = Some ms" and "model_config (session w) = Some c"
  shows "try_body api w =
    (let r = completion_request c ms
     in (case api r of Raises d \<Rightarrow> Inl (APIError d) | Responds bs \<Rightarrow> first_text bs, send r w))"
  using assms by (simp add: try_body_def Let_def split: api_outcome.splits)

lemma init_ready:
  "messages (session w) = Some ms \<Longrightarrow> model_config (session w) = Some c \<Longrightarrow>
   initialize_session_state e w = (Inr (), w)"
  by (simp add: initialize_session_state_def)

lemma init_selector_ready:
  assumes "selector_ready e s"
  shows "\<exists>c. initialize_session_state e (fresh s) =
           (Inr (), fresh \<lparr>messages = Some (conversation s), model_config = Some c\<rparr>)
         \<and> model c \<in> set (model_options e)
         \<and> (model_config s \<noteq> None \<longrightarrow> model_config s = Some c)"
  using assms
  by (cases s) (auto simp: selector_ready_def initialize_session_state_def fresh_def
      conversation_def set_messages_def set_model_config_def
      split: option.splits sum.splits)

lemma main_skip_init:
  "initialize_session_state (in_env inp) w = (Inr (), w1) \<Longrightarrow>
   messages (session w1) = Some ms \<Longrightarrow> model_config (session w1) = Some c \<Longrightarrow>
   main inp w = main inp w1"
  by (simp add: main_def init_ready)

lemma sidebar_ready:
  assumes "model_config (session w) = Some c"
    and "index_of (model_options e) (model c) = Some i"
  shows "sidebar_config e pick w =
     (Inr (), set_model_config (c\<lparr>model := selectbox (model_options e) i pick\<rparr>)
                (emit (Selectbox (model_options e) i) (emit SidebarTitle w)))"
  using assms by (simp add: sidebar_config_def emit_def Let_def)

lemma main_ready:
  assumes "messages (session w) = Some ms"
    and "model_config (session w) = Some c"
    and "index_of (model_options (in_env inp)) (model c) = Some i"
  shows "main inp w =
    (let c' = c\<lparr>model := selectbox (model_options (in_env inp)) i (in_choice inp)\<rparr>;
         w3 = \<lparr>session = \<lparr>messages = Some ms, model_config = Some c'\<rparr>,
               screen = screen w @ [SidebarTitle, Selectbox (model_options (in_env inp)) i,
                                    PageTitle] @ rendered ms @ [TextInput],
               requests = requests w\<rparr>
     in case (if in_prompt inp \<noteq> [] then submit inp w3 else (Inr (), w3)) of
          (Inl x, w4) \<Rightarrow> (Inl x, w4)
        | (Inr u4, w4) \<Rightarrow> clear_chat (in_clear inp) w4)"
proof -
  have s: "session w = \<lparr>messages = Some ms, model_config = Some c\<rparr>"
    using assms(1,2) by (cases "session w") simp
  obtain sc rq where w: "w = \<lparr>session = \<lparr>messages = Some ms, model_config = Some c\<rparr>,
                               screen = sc, requests = rq\<rparr>"
    using s by (cases w) simp
  have i: "index_of (model_options (in_env inp)) (model c) = Some i"
    by (rule assms(3))
  show ?thesis
    unfolding w
    by (simp add: main_def init_ready sidebar_ready [OF _ i] display_chat_history_def
        set_model_config_def emit_def Let_def)
qed

lemma submit_ready:
  assumes "messages (session w) = Some ms"
    and "generate_llm_response (in_env inp) (in_api inp) (in_prompt inp)
           (emit (ChatMarkdown ''user'' (in_prompt inp))
              (set_messages (ms @ [user_message (in_prompt inp)]) w)) = (Inr r, w3)"
  shows "submit inp w =
     (Inr (), set_messages (ms @ [user_message (in_prompt inp), assistant_message r])
                (emit (ChatMarkdown ''assistant'' r) w3))"
proof -
  let ?w2 = "emit (ChatMarkdown ''user'' (in_prompt inp))
              (set_messages (ms @ [user_message (in_prompt inp)]) w)"
  have "session w3 = session ?w2"
    using gen_session [of "in_env inp" "in_api inp" "in_prompt inp" ?w2] assms(2) by simp
  then have m3: "messages (session w3) = Some (ms @ [user_message (in_prompt inp)])"
    by (simp add: emit_def set_messages_def)
  show ?thesis
    using assms m3
    by (simp add: submit_def append_message_def Let_def emit_def set_messages_def)
qed


lemma gen_ready:
  assumes "getenv e ''ANTHROPIC_API_KEY'' [] \<noteq> []"
    and "messages (session w) = Some ms" and "model_config (session w) = Some c"
  shows "generate_llm_response e api p w =
    (let r = completion_request c ms
     in case (case api r of Raises d \<Rightarrow> Inl (APIError d) | Responds bs \<Rightarrow> first_text bs) of
          Inr t \<Rightarrow> (Inr t, send r w)
        | Inl x \<Rightarrow> (Inr failure_text, emit (ErrorBoxExn x) (send r w)))"
proof -
  let ?r = "completion_request c ms"
  let ?o = "case api ?r of Raises d \<Rightarrow> Inl (APIError d) | Responds bs \<Rightarrow> first_text bs"
  have tb: "try_body api w = (?o, send ?r w)"
    using try_body_ready [OF assms(2,3), of api] by (simp add: Let_def)
  have nr: "?o \<noteq> Inl RerunException"
    using try_body_not_rerun [of api w] tb by simp
  show ?thesis
    using assms(1) nr
    by (simp add: generate_llm_response_def tb is_Exception_def Let_def split: sum.splits)
qed









lemma clear_requests: "requests (snd (clear_chat b w)) = requests w"
  by (simp add: clear_chat_def set_messages_def emit_def Let_def)


lemma seq_requests:
  assumes "requests (snd m) = q"
    and "\<And>w'. requests w' = q \<Longrightarrow> requests (snd (f w')) = q"
  shows "requests (snd (case m of (Inl x, w') \<Rightarrow> (Inl x, w') | (Inr u, w') \<Rightarrow> f w')) = q"
  using assms by (cases m) (auto split: sum.splits)


lemma submit_total:
  assumes "messages (session w) = Some ms"
  shows "\<exists>r w' us. submit inp w = (Inr (), w')
           \<and> session w' = (session w)\<lparr>messages :=
                 Some (ms @ [user_message (in_prompt inp), assistant_message r])\<rparr>
           \<and> screen w' = screen w @ us \<and> AboutPanel \<notin> set us"
proof -
  let ?p = "in_prompt inp"
  let ?w2 = "emit (ChatMarkdown ''user'' ?p) (set_messages (ms @ [user_message ?p]) w)"
  obtain r w3 where gen: "generate_llm_response (in_env inp) (in_api inp) ?p ?w2 = (Inr r, w3)"
    using gen_returns [of "in_env inp" "in_api inp" ?p ?w2]
    by (cases "generate_llm_response (in_env inp) (in_api inp) ?p ?w2") auto
  have s3: "session w3 = session ?w2"
    using gen_session [of "in_env inp" "in_api inp" ?p ?w2] gen by simp
  obtain us where us: "screen w3 = screen ?w2 @ us" "AboutPanel \<notin> set us"
    using gen_screen [of "in_env inp" "in_api inp" ?p ?w2] gen by auto
  have sub: "submit inp w =
     (Inr (), set_messages (ms @ [user_message ?p, assistant_message r])
                (emit (ChatMarkdown ''assistant'' r) w3))"
    using assms gen by (rule submit_ready)
  show ?thesis
    unfolding sub using s3 us
    by (intro exI [of _ r] exI [of _ "set_messages (ms @ [user_message ?p, assistant_message r])
                (emit (ChatMarkdown ''assistant'' r) w3)"]
        exI [of _ "ChatMarkdown ''user'' ?p # us @ [ChatMarkdown ''assistant'' r]"])
      (simp add: emit_def set_messages_def)
qed

lemma pass_clear:
  assumes ms: "messages s = Some ms" and c: "model_config s = Some c"
    and i: "index_of (model_options (in_env inp)) (model c) = Some i"
    and clear: "in_clear inp"
  shows "fst (main inp (fresh s)) = Inl RerunException
       \<and> messages (session (snd (main inp (fresh s)))) = Some []
       \<and> (\<exists>us. screen (snd (main inp (fresh s))) =
                  [SidebarTitle, Selectbox (model_options (in_env inp)) i, PageTitle]
                  @ rendered ms @ [TextInput] @ us @ [SidebarRule, ClearButton]
                \<and> AboutPanel \<notin> set us \<and> (in_prompt inp = [] \<longrightarrow> us = []))"
proof -
  let ?opts = "model_options (in_env inp)"
  let ?c' = "c\<lparr>model := selectbox ?opts i (in_choice inp)\<rparr>"
  let ?w3 = "\<lparr>session = \<lparr>messages = Some ms, model_config = Some ?c'\<rparr>,
              screen = [] @ [SidebarTitle, Selectbox ?opts i, PageTitle] @ rendered ms
                       @ [TextInput],
              requests = []\<rparr>"
  have m: "main inp (fresh s) =
     (case (if in_prompt inp \<noteq> [] then submit inp ?w3 else (Inr (), ?w3)) of
          (Inl x, w4) \<Rightarrow> (Inl x, w4)
        | (Inr u4, w4) \<Rightarrow> clear_chat (in_clear inp) w4)"
    using main_ready [of "fresh s" ms c inp i] ms c i by (simp add: fresh_def Let_def)
  show ?thesis
  proof (cases "in_prompt inp = []")
    case True
    then show ?thesis
      using clear by (simp add: m clear_chat_def emit_def set_messages_def Let_def)
  next
    case False
    obtain r w' us where sub: "submit inp ?w3 = (Inr (), w')"
      and scr: "screen w' = screen ?w3 @ us" and about: "AboutPanel \<notin> set us"
      using submit_total [of ?w3 ms inp] by auto
    show ?thesis
      using False clear sub scr about
      by (simp add: m clear_chat_def emit_def set_messages_def Let_def)
  qed
qed

lemma gen_requests:
  assumes "getenv e ''ANTHROPIC_API_KEY'' [] \<noteq> []"
    and "messages (session w) = Some ms" and "model_config (session w) = Some c"
  shows "requests (snd (generate_llm_response e api p w)) =
           requests w @ [completion_request c ms]"
  by (simp add: gen_ready [OF assms] Let_def send_def emit_def split: sum.splits)

lemma submit_requests_key:
  assumes k: "getenv (in_env inp) ''ANTHROPIC_API_KEY'' [] \<noteq> []"
    and m: "messages (session w) = Some ms" and c: "model_config (session w) = Some c"
  shows "requests (snd (submit inp w)) =
           requests w @ [completion_request c (ms @ [user_message (in_prompt inp)])]"
proof -
  let ?p = "in_prompt inp"
  let ?w2 = "emit (ChatMarkdown ''user'' ?p) (set_messages (ms @ [user_message ?p]) w)"
  obtain r w3 where gen: "generate_llm_response (in_env inp) (in_api inp) ?p ?w2 = (Inr r, w3)"
    using gen_returns [of "in_env inp" "in_api inp" ?p ?w2]
    by (cases "generate_llm_response (in_env inp) (in_api inp) ?p ?w2") auto
  have m2: "messages (session ?w2) = Some (ms @ [user_message ?p])"
    and c2: "model_config (session ?w2) = Some c"
    using c by (simp_all add: emit_def set_messages_def)
  have "requests w3 = requests ?w2 @ [completion_request c (ms @ [user_message ?p])]"
    using gen_requests [OF k m2 c2, of "in_api inp" ?p] gen by simp
  then show ?thesis
    by (simp add: submit_ready [OF m gen] emit_def set_messages_def)
qed

lemma pass_request:
  assumes ms: "messages s = Some ms" and c: "model_config s = Some c"
    and i: "index_of (model_options (in_env inp)) (model c) = Some i"
    and prompt: "in_prompt inp \<noteq> []"
    and k: "getenv (in_env inp) ''ANTHROPIC_API_KEY'' [] \<noteq> []"
  shows "requests (snd (main inp (fresh s))) =
           [completion_request
              (c\<lparr>model := selectbox (model_options (in_env inp)) i (in_choice inp)\<rparr>)
              (ms @ [user_message (in_prompt inp)])]"
proof -
  let ?opts = "model_options (in_env inp)"
  let ?c' = "c\<lparr>model := selectbox ?opts i (in_choice inp)\<rparr>"
  let ?w3 = "\<lparr>session = \<lparr>messages = Some ms, model_config = Some ?c'\<rparr>,
              screen = [] @ [SidebarTitle, Selectbox ?opts i, PageTitle] @ rendered ms
                       @ [TextInput],
              requests = []\<rparr>"
  have m: "main inp (fresh s) =
     (case submit inp ?w3 of
          (Inl x, w4) \<Rightarrow> (Inl x, w4)
        | (Inr u4, w4) \<Rightarrow> clear_chat (in_clear inp) w4)"
    using main_ready [of "fresh s" ms c inp i] ms c i prompt by (simp add: fresh_def Let_def)
  have r: "requests (snd (submit inp ?w3)) =
      [] @ [completion_request ?c' (ms @ [user_message (in_prompt inp)])]"
    using submit_requests_key [OF k, of ?w3 ms ?c'] by simp
  show ?thesis
    unfolding m
    by (rule seq_requests) (use r in \<open>simp_all add: clear_requests\<close>)
qed

lemma run_pass_clear:
  assumes "selector_ready (in_env inp) s" and "in_clear inp"
  shows "messages (run_pass inp s) = Some []"
proof -
  obtain c where init: "initialize_session_state (in_env inp) (fresh s) =
        (Inr (), fresh \<lparr>messages = Some (conversation s), model_config = Some c\<rparr>)"
    and c: "model c \<in> set (model_options (in_env inp))"
    using init_selector_ready [OF assms(1)] by blast
  let ?s1 = "\<lparr>messages = Some (conversation s), model_config = Some c\<rparr>"
  have m1: "main inp (fresh s) = main inp (fresh ?s1)"
    using init by (intro main_skip_init [where ms = "conversation s" and c = c])
      (simp_all add: fresh_def)
  obtain i where i: "index_of (model_options (in_env inp)) (model c) = Some i"
    using index_of_mem [OF c] by blast
  have "messages (session (snd (main inp (fresh ?s1)))) = Some []"
    using pass_clear [of ?s1 "conversation s" c inp i] i assms(2) by simp
  then show ?thesis by (simp add: run_pass_def m1)
qed


lemma key_present: "(\<exists>k. e ''ANTHROPIC_API_KEY'' = Some k \<and> k \<noteq> []) \<longleftrightarrow>
    getenv e ''ANTHROPIC_API_KEY'' [] \<noteq> []"
  by (auto simp: getenv_def split: option.splits)








subsection \<open>Unfolding the script on concrete inputs\<close>

lemmas concrete_defs =
  keyed_env_def stale_env_def bad_tokens_env_def empty_tokens_env_def opus_config_def
  stale_keyed_env_def custom_env_def say_and_clear_def
  stale_session_def chat_session_def canned_api_def failing_api_def say_def click_clear_def
  new_session_def fresh_def

lemmas lib_defs =
  getenv_def py_int_def skip_int_space_def is_int_space_def is_digit_def digit_val_def
  max_str_digits_def
  model_options_def selectbox_def

lemmas step_defs =
  main_def initialize_session_state_def default_model_config_def default_max_tokens_def
  sidebar_config_def display_chat_history_def rendered_def submit_def append_message_def
  generate_llm_response_def try_body_def completion_request_def api_messages_def
  first_text_def is_Exception_def clear_chat_def emit_def send_def set_messages_def
  set_model_config_def user_message_def assistant_message_def run_pass_def

section \<open>The claims\<close>

text \<open>
  C1. The model selector when the selected model is not one of the options. The
  specification asks for a fallback to the first option. \<^verbatim>\<open>sidebar_config\<close> looks the
  model up with \<^verbatim>\<open>model_options.index(...)\<close>, which raises ValueError for a value that
  is not in the list. With the options m1, m2 and the selected model m3 the selector
  raises, the pass ends there and the session still holds m3. A new session under the same
  environment fails on its first pass, since the default model is not among m1, m2.
\<close>

theorem stale_model_selector_raises:
  "fst (sidebar_config stale_env None (fresh stale_session)) = Inl ValueError
   \<and> fst (main (say stale_env (canned_api ''hi'') ''hello'') (fresh stale_session))
       = Inl ValueError
   \<and> run_pass (say stale_env (canned_api ''hi'') ''hello'') stale_session = stale_session
   \<and> fst (main (say stale_env (canned_api ''hi'') ''hello'') (fresh new_session))
       = Inl ValueError"
  by (simp add: concrete_defs lib_defs step_defs Let_def)

text \<open>
  C2. The default for max\_tokens. With the variable unset the value is 1000. With the
  variable set to a string that \<^verbatim>\<open>int\<close> rejects (\<^verbatim>\<open>abc\<close>, or the empty string) line
  17 raises ValueError: there is no fallback to 1000, the first pass of a new session ends
  with the exception and the session has no model configuration afterwards.
\<close>

theorem unparsable_max_tokens_raises:
  "default_max_tokens Map.empty = Inr 1000
   \<and> default_max_tokens bad_tokens_env = Inl ValueError
   \<and> default_max_tokens empty_tokens_env = Inl ValueError
   \<and> fst (main (say bad_tokens_env (canned_api ''hi'') ''hello'') (fresh new_session))
       = Inl ValueError
   \<and> model_config (run_pass (say bad_tokens_env (canned_api ''hi'') ''hello'') new_session)
       = None"
  by (simp add: concrete_defs lib_defs step_defs Let_def)




text \<open>
  C4, as stated, at concrete calls with the key set. A call that times out, a call that
  fails for another reason and a call that succeeds with the words of the failure text all
  return the same value: a plain string. The result carries no error kind and no
  description of the exception.
\<close>

theorem failure_result_is_plain_text:
  "fst (generate_llm_response keyed_env (failing_api ''timed out'') ''bye''
          (fresh chat_session)) =
     Inr ''An error occurred while generating the response.''
   \<and> fst (generate_llm_response keyed_env (failing_api ''overloaded'') ''bye''
            (fresh chat_session)) =
     fst (generate_llm_response keyed_env (failing_api ''timed out'') ''bye''
            (fresh chat_session))
   \<and> fst (generate_llm_response keyed_env
            (canned_api ''An error occurred while generating the response.'') ''bye''
            (fresh chat_session)) =
     fst (generate_llm_response keyed_env (failing_api ''timed out'') ''bye''
            (fresh chat_session))"
  by (simp add: generate_llm_response_def try_body_def completion_request_def send_def
      emit_def canned_api_def failing_api_def first_text_def failure_text_def
      is_Exception_def keyed_env_def getenv_def chat_session_def fresh_def Let_def)

text \<open>
  C4, as the code has it. \<^verbatim>\<open>generate_llm_response\<close> returns a string for every
  environment, API behaviour and world: it never ends with an exception. With the key set,
  a call that raises, a response with no content segment, a response whose first segment
  has no text, and a session that lacks a key all end the same way: one error box that
  shows the exception, and the fixed text of line 79 as the returned string. The request,
  when one was built, has been sent.
\<close>

theorem completion_failure_is_returned:
  "(\<exists>t. fst (generate_llm_response e api p w) = Inr t)
   \<and> ((\<exists>k. e ''ANTHROPIC_API_KEY'' = Some k \<and> k \<noteq> []) \<longrightarrow>
      messages (session w) = Some ms \<longrightarrow> model_config (session w) = Some c \<longrightarrow>
      req = \<lparr>req_model = model c, req_max_tokens = max_tokens c,
             req_temperature = temperature c, req_messages = ms\<rparr> \<longrightarrow>
        (\<forall>d. api req = Raises d \<longrightarrow>
           generate_llm_response e api p w =
             (Inr ''An error occurred while generating the response.'',
              w\<lparr>screen := screen w @ [ErrorBoxExn (APIError d)],
                requests := requests w @ [req]\<rparr>))
      \<and> (api req = Responds [] \<longrightarrow>
           generate_llm_response e api p w =
             (Inr ''An error occurred while generating the response.'',
              w\<lparr>screen := screen w @ [ErrorBoxExn IndexError],
                requests := requests w @ [req]\<rparr>))
      \<and> (\<forall>bs. api req = Responds (OtherBlock # bs) \<longrightarrow>
           generate_llm_response e api p w =
             (Inr ''An error occurred while generating the response.'',
              w\<lparr>screen := screen w @ [ErrorBoxExn AttributeError],
                requests := requests w @ [req]\<rparr>)))
   \<and> ((\<exists>k. e ''ANTHROPIC_API_KEY'' = Some k \<and> k \<noteq> []) \<longrightarrow>
      messages (session w) = None \<or> model_config (session w) = None \<longrightarrow>
        generate_llm_response e api p w =
          (Inr ''An error occurred while generating the response.'',
           w\<lparr>screen := screen w @ [ErrorBoxExn AttributeError]\<rparr>))"
proof (intro conjI impI)
  show "\<exists>t. fst (generate_llm_response e api p w) = Inr t"
    by (rule gen_returns)
next
  assume k': "\<exists>k. e ''ANTHROPIC_API_KEY'' = Some k \<and> k \<noteq> []"
    and m: "messages (session w) = Some ms" and c: "model_config (session w) = Some c"
    and r: "req = \<lparr>req_model = model c, req_max_tokens = max_tokens c,
             req_temperature = temperature c, req_messages = ms\<rparr>"
  have k: "getenv e ''ANTHROPIC_API_KEY'' [] \<noteq> []"
    using k' by (simp add: key_present)
  have q: "completion_request c ms = req"
    by (simp add: r completion_request_eq)
  note g = gen_ready [OF k m c, of api p]
  show "\<forall>d. api req = Raises d \<longrightarrow>
           generate_llm_response e api p w =
             (Inr ''An error occurred while generating the response.'',
              w\<lparr>screen := screen w @ [ErrorBoxExn (APIError d)],
                requests := requests w @ [req]\<rparr>)"
    by (simp add: g q Let_def failure_text_def emit_def send_def)
  show "generate_llm_response e api p w =
             (Inr ''An error occurred while generating the response.'',
              w\<lparr>screen := screen w @ [ErrorBoxExn IndexError],
                requests := requests w @ [req]\<rparr>)"
    if "api req = Responds []"
    using that by (simp add: g q Let_def first_text_def failure_text_def emit_def send_def)
  show "\<forall>bs. api req = Responds (OtherBlock # bs) \<longrightarrow>
           generate_llm_response e api p w =
             (Inr ''An error occurred while generating the response.'',
              w\<lparr>screen := screen w @ [ErrorBoxExn AttributeError],
                requests := requests w @ [req]\<rparr>)"
    by (simp add: g q Let_def first_text_def failure_text_def emit_def send_def)
next
  assume k': "\<exists>k. e ''ANTHROPIC_API_KEY'' = Some k \<and> k \<noteq> []"
    and "messages (session w) = None \<or> model_config (session w) = None"
  then show "generate_llm_response e api p w =
          (Inr ''An error occurred while generating the response.'',
           w\<lparr>screen := screen w @ [ErrorBoxExn AttributeError]\<rparr>)"
    using key_present [of e]
    by (auto simp: generate_llm_response_def try_body_def is_Exception_def failure_text_def
        emit_def split: option.splits)
qed

theorem completion_failure_is_returned_witness:
  "generate_llm_response keyed_env (failing_api ''timed out'') ''bye'' (fresh chat_session) =
     (Inr ''An error occurred while generating the response.'',
      \<lparr>session = chat_session,
       screen = [ErrorBoxExn (APIError ''timed out'')],
       requests = [\<lparr>req_model = ''claude-3-opus-20240229'', req_max_tokens = 1000,
                    req_temperature = 7 / 10,
                    req_messages = [\<lparr>role = ''user'', content = ''hello''\<rparr>,
                                    \<lparr>role = ''assistant'', content = ''hi there''\<rparr>]\<rparr>]\<rparr>)"
proof -
  let ?req = "\<lparr>req_model = ''claude-3-opus-20240229'', req_max_tokens = 1000,
               req_temperature = 7 / 10,
               req_messages = [\<lparr>role = ''user'', content = ''hello''\<rparr>,
                               \<lparr>role = ''assistant'', content = ''hi there''\<rparr>]\<rparr>"
  have k: "\<exists>k. keyed_env ''ANTHROPIC_API_KEY'' = Some k \<and> k \<noteq> []"
    by (simp add: keyed_env_def)
  have m: "messages (session (fresh chat_session)) =
             Some [\<lparr>role = ''user'', content = ''hello''\<rparr>,
                   \<lparr>role = ''assistant'', content = ''hi there''\<rparr>]"
    by (simp add: fresh_def chat_session_def user_message_def assistant_message_def)
  have c: "model_config (session (fresh chat_session)) = Some opus_config"
    by (simp add: fresh_def chat_session_def)
  show ?thesis
    using completion_failure_is_returned
      [of keyed_env "failing_api ''timed out''" "''bye''" "fresh chat_session"
          "[\<lparr>role = ''user'', content = ''hello''\<rparr>,
            \<lparr>role = ''assistant'', content = ''hi there''\<rparr>]" opus_config ?req]
      k m c
    by (simp add: opus_config_def failing_api_def fresh_def)
qed






text \<open>
  C7. With the key set, \<^verbatim>\<open>generate_llm_response\<close> sends exactly one request: the
  model, max\_tokens and temperature of the session and every message of the session, role
  and content, in order. In a pass with a non-empty input that one request ends with the
  user message of this pass and carries the model the selector returned in this pass.
\<close>

theorem request_carries_full_conversation:
  assumes "getenv e ''ANTHROPIC_API_KEY'' [] \<noteq> []"
    and "messages s = Some ms" and "model_config s = Some c"
  shows "requests (snd (generate_llm_response e api p (fresh s))) =
           [\<lparr>req_model = model c, req_max_tokens = max_tokens c,
             req_temperature = temperature c, req_messages = ms\<rparr>]
       \<and> (in_env inp = e \<longrightarrow> in_prompt inp \<noteq> [] \<longrightarrow> model c \<in> set (model_options e) \<longrightarrow>
            (\<exists>i. index_of (model_options e) (model c) = Some i
               \<and> requests (snd (main inp (fresh s))) =
                   [\<lparr>req_model = selectbox (model_options e) i (in_choice inp),
                     req_max_tokens = max_tokens c,
                     req_temperature = temperature c,
                     req_messages = ms @ [\<lparr>role = ''user'', content = in_prompt inp\<rparr>]\<rparr>]))"
proof -
  have a: "requests (snd (generate_llm_response e api p (fresh s))) =
           [\<lparr>req_model = model c, req_max_tokens = max_tokens c,
             req_temperature = temperature c, req_messages = ms\<rparr>]"
    using gen_requests [OF assms(1), of "fresh s" ms c api p] assms(2,3)
    by (simp add: fresh_def completion_request_eq)
  have b: "\<exists>i. index_of (model_options e) (model c) = Some i
               \<and> requests (snd (main inp (fresh s))) =
                   [\<lparr>req_model = selectbox (model_options e) i (in_choice inp),
                     req_max_tokens = max_tokens c,
                     req_temperature = temperature c,
                     req_messages = ms @ [\<lparr>role = ''user'', content = in_prompt inp\<rparr>]\<rparr>]"
    if e: "in_env inp = e" and p: "in_prompt inp \<noteq> []" and mem: "model c \<in> set (model_options e)"
  proof -
    obtain i where i: "index_of (model_options (in_env inp)) (model c) = Some i"
      using index_of_mem [OF mem] e by blast
    have k: "getenv (in_env inp) ''ANTHROPIC_API_KEY'' [] \<noteq> []"
      using assms(1) e by simp
    show ?thesis
      using pass_request [OF assms(2,3) i p k] i e
      by (simp add: completion_request_eq user_message_def)
  qed
  show ?thesis using a b by blast
qed

theorem request_carries_full_conversation_witness:
  "requests (snd (main (say keyed_env (canned_api ''hi there'') ''bye'') (fresh chat_session))) =
     [\<lparr>req_model = ''claude-3-opus-20240229'', req_max_tokens = 1000,
       req_temperature = 7 / 10,
       req_messages = [\<lparr>role = ''user'', content = ''hello''\<rparr>,
                       \<lparr>role = ''assistant'', content = ''hi there''\<rparr>,
                       \<lparr>role = ''user'', content = ''bye''\<rparr>]\<rparr>]"
proof -
  let ?inp = "say keyed_env (canned_api ''hi there'') ''bye''"
  have k: "getenv keyed_env ''ANTHROPIC_API_KEY'' [] \<noteq> []"
    by (simp add: keyed_env_def getenv_def)
  have m: "messages chat_session =
             Some [\<lparr>role = ''user'', content = ''hello''\<rparr>,
                   \<lparr>role = ''assistant'', content = ''hi there''\<rparr>]"
    by (simp add: chat_session_def user_message_def assistant_message_def)
  have c: "model_config chat_session = Some opus_config"
    by (simp add: chat_session_def)
  have e: "in_env ?inp = keyed_env" and p: "in_prompt ?inp \<noteq> []"
    and ch: "in_choice ?inp = None" and pb: "in_prompt ?inp = ''bye''"
    by (simp_all add: say_def)
  have opts: "model_options keyed_env =
      [''claude-3-opus-20240229'', ''claude-3-sonnet-20240229'', ''claude-3-haiku-20240307'']"
    by (simp add: model_options_def keyed_env_def getenv_def)
  have mem: "model opus_config \<in> set (model_options keyed_env)"
    by (simp add: opts opus_config_def)
  obtain i where i: "index_of (model_options keyed_env) (model opus_config) = Some i"
    and r: "requests (snd (main ?inp (fresh chat_session))) =
                   [\<lparr>req_model = selectbox (model_options keyed_env) i (in_choice ?inp),
                     req_max_tokens = max_tokens opus_config,
                     req_temperature = temperature opus_config,
                     req_messages = [\<lparr>role = ''user'', content = ''hello''\<rparr>,
                                     \<lparr>role = ''assistant'', content = ''hi there''\<rparr>]
                                    @ [\<lparr>role = ''user'', content = in_prompt ?inp\<rparr>]\<rparr>]"
    using request_carries_full_conversation [OF k m c, where inp = ?inp] e p mem by blast
  have "i = 0" using i by (simp add: opts opus_config_def)
  then show ?thesis
    using r by (simp add: ch pb opts selectbox_def opus_config_def)
qed

text \<open>
  C8. When the response starts with a text segment, \<^verbatim>\<open>generate_llm_response\<close>
  returns the text of that segment, whatever segments follow.
\<close>

theorem first_segment_returned:
  assumes "getenv e ''ANTHROPIC_API_KEY'' [] \<noteq> []"
    and "messages (session w) = Some ms" and "model_config (session w) = Some c"
    and "api (completion_request c ms) = Responds (TextBlock t # rest)"
  shows "generate_llm_response e api p w = (Inr t, send (completion_request c ms) w)"
  using assms(4) by (simp add: gen_ready [OF assms(1,2,3)] Let_def first_text_def)

theorem first_segment_returned_witness:
  "fst (generate_llm_response keyed_env
          (\<lambda>r. Responds [TextBlock ''first'', TextBlock ''second'', OtherBlock])
          ''bye'' (fresh chat_session)) = Inr ''first''"
proof -
  have k: "getenv keyed_env ''ANTHROPIC_API_KEY'' [] \<noteq> []"
    by (simp add: keyed_env_def getenv_def)
  have m: "messages (session (fresh chat_session)) =
             Some [user_message ''hello'', assistant_message ''hi there'']"
    by (simp add: fresh_def chat_session_def)
  have c: "model_config (session (fresh chat_session)) = Some opus_config"
    by (simp add: fresh_def chat_session_def)
  have a: "(\<lambda>r. Responds [TextBlock ''first'', TextBlock ''second'', OtherBlock])
             (completion_request opus_config
                [user_message ''hello'', assistant_message ''hi there'']) =
           Responds (TextBlock ''first'' # [TextBlock ''second'', OtherBlock])"
    by simp
  show ?thesis
    using first_segment_returned [OF k m c a, of "''bye''"] by simp
qed

text \<open>
  C9. Lines 124 to 126 with the button clicked leave the conversation empty in every
  world. So does a whole pass with the button clicked, on a session whose model is one of
  the options, whatever the conversation held before.
\<close>

theorem clear_resets_conversation:
  "messages (session (snd (clear_chat True w))) = Some []
   \<and> (selector_ready (in_env inp) s \<longrightarrow> in_clear inp \<longrightarrow>
        messages (run_pass inp s) = Some [] \<and> length (conversation (run_pass inp s)) = 0)"
proof -
  have a: "messages (session (snd (clear_chat True w))) = Some []"
    by (simp add: clear_chat_def set_messages_def emit_def Let_def)
  have b: "messages (run_pass inp s) = Some [] \<and> length (conversation (run_pass inp s)) = 0"
    if "selector_ready (in_env inp) s" and "in_clear inp"
    using run_pass_clear [OF that] by (simp add: conversation_def)
  show ?thesis using a b by blast
qed

theorem clear_resets_conversation_witness:
  "selector_ready (in_env (click_clear keyed_env)) chat_session
   \<and> in_clear (click_clear keyed_env)
   \<and> length (conversation chat_session) = 2
   \<and> messages (run_pass (click_clear keyed_env) chat_session) = Some []
   \<and> length (conversation (run_pass (click_clear keyed_env) chat_session)) = 0"
proof -
  have r: "selector_ready (in_env (click_clear keyed_env)) chat_session"
    by (simp add: selector_ready_def chat_session_def click_clear_def keyed_env_def
        model_options_def getenv_def opus_config_def)
  have c: "in_clear (click_clear keyed_env)"
    by (simp add: click_clear_def)
  have l: "length (conversation chat_session) = 2"
    by (simp add: conversation_def chat_session_def)
  show ?thesis
    using r c l clear_resets_conversation [of _ "click_clear keyed_env" chat_session]
    by blast
qed

text \<open>
  C10, as stated, on a new session with \<^verbatim>\<open>DEFAULT_MAX_TOKENS=abc\<close>: the initializer stores
  the empty conversation, then line 17 raises ValueError and no model configuration is
  stored.
\<close>

theorem initialize_raises_without_settings:
  "initialize_session_state bad_tokens_env (fresh new_session) =
     (Inl ValueError,
      \<lparr>session = \<lparr>messages = Some [], model_config = None\<rparr>, screen = [], requests = []\<rparr>)"
  by (simp add: initialize_session_state_def default_model_config_def default_max_tokens_def
      set_messages_def bad_tokens_env_def fresh_def new_session_def lib_defs)

text \<open>
  C10, as the code has it. \<^verbatim>\<open>initialize_session_state\<close> leaves a session with both keys
  as it is. On a session with neither key it stores an empty conversation and, when
  \<^verbatim>\<open>DEFAULT_MAX_TOKENS\<close> is unset or an integer literal, the model configuration read from
  the environment: the model is \<^verbatim>\<open>DEFAULT_MODEL\<close>, or the opus model when that is unset;
  the temperature is 0.7; max\_tokens is the value of the literal, or 1000 when the
  variable is unset. Running it a second time changes nothing, in every environment and
  world: on the world the first run left it gives the same outcome and the same world, and
  so does the sequence of two runs.
\<close>

theorem initialize_idempotent:
  "(messages (session w) \<noteq> None \<and> model_config (session w) \<noteq> None \<longrightarrow>
      initialize_session_state e w = (Inr (), w))
   \<and> (messages (session w) = None \<and> model_config (session w) = None \<longrightarrow>
      (e ''DEFAULT_MAX_TOKENS'' = None \<and> n = 1000 \<or>
       (\<exists>v. e ''DEFAULT_MAX_TOKENS'' = Some v \<and> py_int v = Inr n)) \<longrightarrow>
      initialize_session_state e w =
        (Inr (),
         w\<lparr>session :=
             \<lparr>messages = Some [],
              model_config =
                Some \<lparr>model = (case e ''DEFAULT_MODEL'' of
                                  None \<Rightarrow> ''claude-3-opus-20240229''
                                | Some m \<Rightarrow> m),
                      temperature = 7 / 10,
                      max_tokens = n\<rparr>\<rparr>\<rparr>))
   \<and> initialize_session_state e (snd (initialize_session_state e w)) =
       initialize_session_state e w
   \<and> (case initialize_session_state e w of
        (Inl x, w1) \<Rightarrow> (Inl x, w1)
      | (Inr u, w1) \<Rightarrow> initialize_session_state e w1) = initialize_session_state e w"
proof (intro conjI impI)
  assume "messages (session w) \<noteq> None \<and> model_config (session w) \<noteq> None"
  then show "initialize_session_state e w = (Inr (), w)"
    by (auto simp: initialize_session_state_def)
next
  assume none: "messages (session w) = None \<and> model_config (session w) = None"
    and tok: "e ''DEFAULT_MAX_TOKENS'' = None \<and> n = 1000 \<or>
       (\<exists>v. e ''DEFAULT_MAX_TOKENS'' = Some v \<and> py_int v = Inr n)"
  have d: "default_max_tokens e = Inr n"
    using tok by (auto simp: default_max_tokens_def)
  have s: "session w = \<lparr>messages = None, model_config = None\<rparr>"
    using none by (cases "session w") simp
  show "initialize_session_state e w =
        (Inr (),
         w\<lparr>session :=
             \<lparr>messages = Some [],
              model_config =
                Some \<lparr>model = (case e ''DEFAULT_MODEL'' of
                                  None \<Rightarrow> ''claude-3-opus-20240229''
                                | Some m \<Rightarrow> m),
                      temperature = 7 / 10,
                      max_tokens = n\<rparr>\<rparr>\<rparr>)"
    using none
    by (simp add: initialize_session_state_def default_model_config_def d getenv_def
        set_messages_def set_model_config_def s)
next
  show "initialize_session_state e (snd (initialize_session_state e w)) =
       initialize_session_state e w"
    by (auto simp: initialize_session_state_def set_messages_def set_model_config_def Let_def
        split: option.splits sum.splits)
next
  show "(case initialize_session_state e w of
        (Inl x, w1) \<Rightarrow> (Inl x, w1)
      | (Inr u, w1) \<Rightarrow> initialize_session_state e w1) = initialize_session_state e w"
    by (auto simp: initialize_session_state_def set_messages_def set_model_config_def Let_def
        split: option.splits sum.splits)
qed

theorem initialize_idempotent_witness:
  "initialize_session_state custom_env (fresh new_session) =
     (Inr (),
      \<lparr>session =
         \<lparr>messages = Some [],
          model_config = Some \<lparr>model = ''claude-3-haiku-20240307'', temperature = 7 / 10,
                                max_tokens = 2048\<rparr>\<rparr>,
       screen = [], requests = []\<rparr>)
   \<and> initialize_session_state Map.empty (fresh new_session) =
     (Inr (),
      \<lparr>session =
         \<lparr>messages = Some [],
          model_config = Some \<lparr>model = ''claude-3-opus-20240229'', temperature = 7 / 10,
                                max_tokens = 1000\<rparr>\<rparr>,
       screen = [], requests = []\<rparr>)
   \<and> initialize_session_state custom_env (fresh chat_session) = (Inr (), fresh chat_session)"
proof -
  have n: "messages (session (fresh new_session)) = None
           \<and> model_config (session (fresh new_session)) = None"
    by (simp add: fresh_def new_session_def)
  have t1: "custom_env ''DEFAULT_MAX_TOKENS'' = None \<and> (2048::int) = 1000 \<or>
       (\<exists>v. custom_env ''DEFAULT_MAX_TOKENS'' = Some v \<and> py_int v = Inr 2048)"
    by (simp add: custom_env_def lib_defs)
  have t2: "Map.empty ''DEFAULT_MAX_TOKENS'' = None \<and> (1000::int) = 1000 \<or>
       (\<exists>v. Map.empty ''DEFAULT_MAX_TOKENS'' = Some v \<and> py_int v = Inr 1000)"
    by simp
  have m: "custom_env ''DEFAULT_MODEL'' = Some ''claude-3-haiku-20240307''"
    by (simp add: custom_env_def)
  have p: "messages (session (fresh chat_session)) \<noteq> None
           \<and> model_config (session (fresh chat_session)) \<noteq> None"
    by (simp add: fresh_def chat_session_def)
  show ?thesis
    using initialize_idempotent [of "fresh new_session" custom_env 2048]
      initialize_idempotent [of "fresh new_session" Map.empty 1000]
      initialize_idempotent [of "fresh chat_session" custom_env 0] n t1 t2 m p
    by (simp add: fresh_def)
qed

end
